theory Spec2Isabelle
  imports Complex_Main
begin

section \<open>Plotting helpers for generalization-across-time results (mne/viz/decoding.py)\<close>

text \<open>
  The module holds two functions, \<open>plot_gat_matrix\<close> and \<open>plot_gat_diagonal\<close>. Both read a
  results object \<open>gat\<close> and drive a matplotlib axes. The embedding keeps three things of
  the Python explicit:
  \<^item> attributes and dictionary keys that may be absent are \<open>option\<close> fields, and reading
    an absent one is the error Python raises (\<open>AttributeError\<close>, \<open>KeyError\<close>);
  \<^item> every exception is a value \<open>Inl e\<close> of a sum type, raised in the order of the source;
  \<^item> the calls made on matplotlib are recorded, in order, as a list of \<open>plt_call\<close>: the
    list a function returns is what has been drawn when it returns or raises. What
    matplotlib does with the arguments of a call is outside the model; the numpy
    functions are modelled with the errors they raise.

  Scores and times are Python floats, modelled as \<open>real\<close>. Comparing floats and taking
  their minimum or maximum is exact. The one operation that rounds is the subtraction of
  two times in the loop of \<open>plot_gat_diagonal\<close> (lines 152 and 154). That loop is therefore
  given twice: with the exact difference, which is what the code computes whenever the
  difference of the two floats is a float again (times that are small integers, say), and
  with the rounding of the subtraction as a parameter \<open>rnd\<close> (the definitions whose names
  start with \<open>fl\<close>), for statements about arbitrary times. With the identity as rounding
  the second loop is the first. Isabelle does not accept a name that ends in an
  underscore, so the attributes \<open>scores_\<close>, \<open>test_times_\<close> and \<open>scorer_\<close> and the key
  \<open>'times_'\<close> lose theirs.
\<close>

subsection \<open>The results object\<close>

datatype py_error = RuntimeError | AttributeError | KeyError | IndexError | ValueError

text \<open>\<open>gat.train_times\<close>: a dict with the keys \<open>'times_'\<close> and \<open>'step'\<close>.\<close>

record train_times_dict =
  train_times_times :: "real list option"
  train_times_step :: "real option"

text \<open>\<open>gat.test_times_\<close>: a dict whose key \<open>'times_'\<close> holds one array of testing times per
  training time.\<close>

record test_times_dict =
  test_times_times :: "real list list option"

text \<open>The attributes the two functions read. \<open>None\<close> is an attribute that is not set
  (\<open>hasattr\<close> is false); \<open>scorer\<close> holds \<open>repr(gat.scorer_)\<close>.\<close>

record gat =
  scores :: "real list list option"
  train_times :: "train_times_dict option"
  test_times :: "test_times_dict option"
  scorer :: "string option"

subsection \<open>The matplotlib calls\<close>

type_synonym axes = nat

text \<open>What \<open>ax.plot\<close> receives as y data: \<open>gat.scores_\<close> itself (two-dimensional) on the
  direct path, the one-dimensional array built by the loop otherwise.\<close>

datatype ydata = Matrix "real list list" | Vector "real list"

datatype plt_call =
    Subplots
  | Imshow "real list list" "real list" real real string
  | Plot "real list" ydata string string
  | Set_xlabel string
  | Set_ylabel string
  | Set_title string
  | Axvline real
  | Axhline real
  | Axhline_dashed real string
  | Set_xlim "real list"
  | Set_ylim "real list"
  | Colorbar
  | Legend
  | Show

datatype figure = Figure_of axes | New_figure

record matrix_opts =
  m_title :: "string option"
  vmin :: "real option"
  vmax :: "real option"
  tlim :: "real list option"
  m_ax :: "axes option"
  cmap :: string
  m_show :: bool
  colorbar :: bool
  m_xlabel :: bool
  m_ylabel :: bool

record diagonal_opts =
  d_title :: "string option"
  xmin :: "real option"
  xmax :: "real option"
  ymin :: "real option"
  ymax :: "real option"
  d_ax :: "axes option"
  d_show :: bool
  color :: string
  d_xlabel :: bool
  d_ylabel :: bool
  legend :: bool

subsection \<open>The numpy functions used\<close>

text \<open>\<open>np.min\<close> and \<open>np.max\<close> of a flat array: \<open>ValueError\<close> on a zero-size array.\<close>

definition np_min_flat :: "real list \<Rightarrow> py_error + real" where
  "np_min_flat xs = (case xs of [] \<Rightarrow> Inl ValueError | x # ys \<Rightarrow> Inr (fold min ys x))"

definition np_max_flat :: "real list \<Rightarrow> py_error + real" where
  "np_max_flat xs = (case xs of [] \<Rightarrow> Inl ValueError | x # ys \<Rightarrow> Inr (fold max ys x))"

text \<open>A list of rows is an array when its rows have one length; numpy refuses to build a
  float array from rows of different lengths (\<open>ValueError\<close>).\<close>

definition rectangular :: "real list list \<Rightarrow> bool" where
  "rectangular m = (case m of [] \<Rightarrow> True | r # rs \<Rightarrow> list_all (\<lambda>r'. length r' = length r) rs)"

definition np_min :: "ydata \<Rightarrow> py_error + real" where
  "np_min y = (case y of
      Matrix m \<Rightarrow> if rectangular m then np_min_flat (concat m) else Inl ValueError
    | Vector v \<Rightarrow> np_min_flat v)"

definition np_max :: "ydata \<Rightarrow> py_error + real" where
  "np_max y = (case y of
      Matrix m \<Rightarrow> if rectangular m then np_max_flat (concat m) else Inl ValueError
    | Vector v \<Rightarrow> np_max_flat v)"

text \<open>\<open>np.unique\<close>: the sorted distinct values.\<close>

definition np_unique :: "nat list \<Rightarrow> nat list" where
  "np_unique xs = sort (remdups xs)"

text \<open>\<open>np.abs(t - T)\<close> for an array \<open>t\<close> and a scalar \<open>T\<close>, with the exact differences
  (\<open>fl_abs_diff\<close> below has the rounded ones).\<close>

definition np_abs_diff :: "real list \<Rightarrow> real \<Rightarrow> real list" where
  "np_abs_diff t T = map (\<lambda>v. \<bar>v - T\<bar>) t"

text \<open>\<open>argmin\<close>: the index of the first occurrence of the minimum; \<open>ValueError\<close> on an
  empty array.\<close>

fun first_index :: "real list \<Rightarrow> real \<Rightarrow> nat" where
  "first_index [] m = 0"
| "first_index (x # xs) m = (if x = m then 0 else Suc (first_index xs m))"

definition np_argmin :: "real list \<Rightarrow> py_error + nat" where
  "np_argmin xs = (case xs of [] \<Rightarrow> Inl ValueError | x # ys \<Rightarrow> Inr (first_index xs (fold min ys x)))"

text \<open>\<open>xs[0]\<close> and \<open>xs[-1]\<close>: \<open>IndexError\<close> on an empty sequence.\<close>

definition py_first :: "'a list \<Rightarrow> py_error + 'a" where
  "py_first xs = (case xs of [] \<Rightarrow> Inl IndexError | x # _ \<Rightarrow> Inr x)"

definition py_last :: "'a list \<Rightarrow> py_error + 'a" where
  "py_last xs = (if xs = [] then Inl IndexError else Inr (last xs))"

text \<open>\<open>m[i][j]\<close> for indices that are never negative.\<close>

definition py_get2 :: "real list list \<Rightarrow> nat \<Rightarrow> nat \<Rightarrow> py_error + real" where
  "py_get2 m i j =
     (if i < length m
      then (if j < length (m ! i) then Inr (m ! i ! j) else Inl IndexError)
      else Inl IndexError)"

text \<open>\<open>'roc' in s\<close>: \<open>s\<close> has the three letters in a row.\<close>

fun has_roc :: "string \<Rightarrow> bool" where
  "has_roc [] = False"
| "has_roc (c # cs) = (take 3 (c # cs) = ''roc'' \<or> has_roc cs)"

subsection \<open>Reading the time descriptors\<close>

text \<open>\<open>gat.train_times['times_']\<close> and \<open>gat.test_times_['times_']\<close>.\<close>

definition get_train_times :: "gat \<Rightarrow> py_error + real list" where
  "get_train_times g =
     (case train_times g of
        None \<Rightarrow> Inl AttributeError
      | Some d \<Rightarrow> (case train_times_times d of None \<Rightarrow> Inl KeyError | Some ts \<Rightarrow> Inr ts))"

definition get_test_times :: "gat \<Rightarrow> py_error + real list list" where
  "get_test_times g =
     (case test_times g of
        None \<Rightarrow> Inl AttributeError
      | Some d \<Rightarrow> (case test_times_times d of None \<Rightarrow> Inl KeyError | Some ts \<Rightarrow> Inr ts))"

text \<open>\<open>gat.train_times['step']\<close>.\<close>

definition get_step :: "gat \<Rightarrow> py_error + real" where
  "get_step g =
     (case train_times g of
        None \<Rightarrow> Inl AttributeError
      | Some d \<Rightarrow> (case train_times_step d of None \<Rightarrow> Inl KeyError | Some s \<Rightarrow> Inr s))"

subsection \<open>plot_gat_matrix\<close>

text \<open>Lines 64 to 67: the colour limits, \<open>vmin\<close> before \<open>vmax\<close>.\<close>

definition matrix_color_bounds :: "real list list \<Rightarrow> matrix_opts \<Rightarrow> py_error + real \<times> real" where
  "matrix_color_bounds sc opts =
     (case (case vmin opts of None \<Rightarrow> np_min (Matrix sc) | Some v \<Rightarrow> Inr v) of
        Inl e \<Rightarrow> Inl e
      | Inr lo \<Rightarrow>
          (case (case vmax opts of None \<Rightarrow> np_max (Matrix sc) | Some v \<Rightarrow> Inr v) of
             Inl e \<Rightarrow> Inl e
           | Inr hi \<Rightarrow> Inr (lo, hi)))"

text \<open>Lines 71 to 73: \<open>[tn_times[0][0], tn_times[-1][-1], tt_times[0], tt_times[-1]]\<close>, with
  \<open>tt_times\<close> the training times and \<open>tn_times\<close> the testing times, read in this order.\<close>

definition default_tlim :: "gat \<Rightarrow> py_error + real list" where
  "default_tlim g =
     (case get_train_times g of Inl e \<Rightarrow> Inl e | Inr tt \<Rightarrow>
     (case get_test_times g of Inl e \<Rightarrow> Inl e | Inr tn \<Rightarrow>
     (case py_first tn of Inl e \<Rightarrow> Inl e | Inr tn0 \<Rightarrow>
     (case py_first tn0 of Inl e \<Rightarrow> Inl e | Inr a \<Rightarrow>
     (case py_last tn of Inl e \<Rightarrow> Inl e | Inr tnl \<Rightarrow>
     (case py_last tnl of Inl e \<Rightarrow> Inl e | Inr b \<Rightarrow>
     (case py_first tt of Inl e \<Rightarrow> Inl e | Inr c \<Rightarrow>
     (case py_last tt of Inl e \<Rightarrow> Inl e | Inr d \<Rightarrow> Inr [a, b, c, d]))))))))"

definition matrix_tlim :: "gat \<Rightarrow> matrix_opts \<Rightarrow> py_error + real list" where
  "matrix_tlim g opts = (case tlim opts of None \<Rightarrow> default_tlim g | Some l \<Rightarrow> Inr l)"

text \<open>Line 61: a figure is made when no axes is passed.\<close>

definition new_axes :: "axes option \<Rightarrow> plt_call list" where
  "new_axes a = (case a of None \<Rightarrow> [Subplots] | Some _ \<Rightarrow> [])"

text \<open>Line 92 (and 177): \<open>ax\<close> has been rebound by then, so the figure is always the one
  of the axes drawn on.\<close>

definition result_figure :: "axes option \<Rightarrow> figure" where
  "result_figure a = (case a of None \<Rightarrow> New_figure | Some h \<Rightarrow> Figure_of h)"

text \<open>Lines 75 to 91.\<close>

definition matrix_calls :: "real list list \<Rightarrow> matrix_opts \<Rightarrow> real \<Rightarrow> real \<Rightarrow> real list \<Rightarrow> plt_call list" where
  "matrix_calls sc opts lo hi ext =
     [Imshow sc ext lo hi (cmap opts)]
     @ (if m_xlabel opts then [Set_xlabel ''Testing Time (s)''] else [])
     @ (if m_ylabel opts then [Set_ylabel ''Training Time (s)''] else [])
     @ (case m_title opts of None \<Rightarrow> [] | Some s \<Rightarrow> [Set_title s])
     @ [Axvline 0, Axhline 0, Set_xlim (take 2 ext), Set_ylim (drop 2 ext)]
     @ (if colorbar opts then [Colorbar] else [])
     @ (if m_show opts then [Show] else [])"

definition plot_gat_matrix :: "gat \<Rightarrow> matrix_opts \<Rightarrow> plt_call list \<times> (py_error + figure)" where
  "plot_gat_matrix g opts =
     (case scores g of
        None \<Rightarrow> ([], Inl RuntimeError)
      | Some sc \<Rightarrow>
          (case matrix_color_bounds sc opts of
             Inl e \<Rightarrow> (new_axes (m_ax opts), Inl e)
           | Inr (lo, hi) \<Rightarrow>
               (case matrix_tlim g opts of
                  Inl e \<Rightarrow> (new_axes (m_ax opts), Inl e)
                | Inr ext \<Rightarrow>
                    (new_axes (m_ax opts) @ matrix_calls sc opts lo hi ext,
                     Inr (result_figure (m_ax opts))))))"

subsection \<open>plot_gat_diagonal\<close>

text \<open>Line 143: \<open>np.all(np.unique([len(t) for t in ...]) == 1)\<close>.\<close>

definition single_element_tests :: "real list list \<Rightarrow> bool" where
  "single_element_tests tts = list_all (\<lambda>n. n = 1) (np_unique (map length tts))"

text \<open>Lines 152 to 155, for one training time \<open>T\<close> at index \<open>i\<close> and one testing-time
  array \<open>t\<close>: the index \<open>j\<close> of the testing time closest to \<open>T\<close>, the test
  \<open>T - t[j] <= gat.train_times['step']\<close>, and the write \<open>scores[i] = gat.scores_[i][j]\<close>.
  The difference is the exact one here; \<open>fl_accept_score\<close> below has the rounded one.\<close>

definition accept_score ::
  "gat \<Rightarrow> real list list \<Rightarrow> nat \<Rightarrow> real \<Rightarrow> real list \<Rightarrow> real list \<Rightarrow> py_error + real list" where
  "accept_score g sc i T acc t =
     (case np_argmin (np_abs_diff t T) of
        Inl e \<Rightarrow> Inl e
      | Inr j \<Rightarrow>
          (case get_step g of
             Inl e \<Rightarrow> Inl e
           | Inr step \<Rightarrow>
               if T - t ! j \<le> step
               then (case py_get2 sc i j of Inl e \<Rightarrow> Inl e | Inr v \<Rightarrow> Inr (acc[i := v]))
               else Inr acc))"

text \<open>Whether the test of line 154 comes out true for the array \<open>t\<close>, that is, whether
  \<open>accept_score\<close> goes on to read a score (false when it raises before the comparison).\<close>

definition accepts :: "gat \<Rightarrow> real \<Rightarrow> real list \<Rightarrow> bool" where
  "accepts g T t =
     (case np_argmin (np_abs_diff t T) of
        Inl e \<Rightarrow> False
      | Inr j \<Rightarrow> (case get_step g of Inl e \<Rightarrow> False | Inr step \<Rightarrow> T - t ! j \<le> step))"

text \<open>Line 150: the loop over the testing-time arrays.\<close>

fun scan_test_times ::
  "gat \<Rightarrow> real list list \<Rightarrow> nat \<Rightarrow> real \<Rightarrow> real list \<Rightarrow> real list list \<Rightarrow> py_error + real list" where
  "scan_test_times g sc i T acc [] = Inr acc"
| "scan_test_times g sc i T acc (t # ts) =
     (case accept_score g sc i T acc t of
        Inl e \<Rightarrow> Inl e
      | Inr acc' \<Rightarrow> scan_test_times g sc i T acc' ts)"

text \<open>Line 149: the loop over \<open>enumerate(gat.train_times['times_'])\<close>, from index \<open>i\<close> on.\<close>

fun diag_loop ::
  "gat \<Rightarrow> real list list \<Rightarrow> real list list \<Rightarrow> nat \<Rightarrow> real list \<Rightarrow> real list \<Rightarrow> py_error + real list" where
  "diag_loop g sc tts i acc [] = Inr acc"
| "diag_loop g sc tts i acc (T # Ts) =
     (case scan_test_times g sc i T acc tts of
        Inl e \<Rightarrow> Inl e
      | Inr acc' \<Rightarrow> diag_loop g sc tts (Suc i) acc' Ts)"

text \<open>Lines 143 to 155: the scores to plot. \<open>np.zeros(len(gat.scores_))\<close> starts the
  second path.\<close>

definition diagonal_scores :: "gat \<Rightarrow> real list list \<Rightarrow> py_error + ydata" where
  "diagonal_scores g sc =
     (case get_test_times g of
        Inl e \<Rightarrow> Inl e
      | Inr tts \<Rightarrow>
          if single_element_tests tts then Inr (Matrix sc)
          else
            (case get_train_times g of
               Inl e \<Rightarrow> Inl e
             | Inr Ts \<Rightarrow>
                 (case diag_loop g sc tts 0 (replicate (length sc) 0) Ts of
                    Inl e \<Rightarrow> Inl e
                  | Inr v \<Rightarrow> Inr (Vector v))))"

text \<open>Line 172: the label of the y axis.\<close>

definition score_label :: "string \<Rightarrow> string" where
  "score_label r = ''Classif. score ('' @ (if has_roc r then ''AUC'' else ''%'') @ '')''"

text \<open>Lines 156 to 176 run in three stretches, each of which can raise after the calls
  before it were made: the plot (line 156 reads the training times), the y limits
  (\<open>np.min\<close>, \<open>np.max\<close>), and the y label (line 172 reads \<open>gat.scorer_\<close>).\<close>

definition diagonal_ylim :: "ydata \<Rightarrow> diagonal_opts \<Rightarrow> py_error + real \<times> real" where
  "diagonal_ylim y opts =
     (case (case ymin opts of None \<Rightarrow> np_min y | Some v \<Rightarrow> Inr v) of
        Inl e \<Rightarrow> Inl e
      | Inr lo \<Rightarrow>
          (case (case ymax opts of None \<Rightarrow> np_max y | Some v \<Rightarrow> Inr v) of
             Inl e \<Rightarrow> Inl e
           | Inr hi \<Rightarrow> Inr (lo, hi)))"

definition plot_calls :: "real list \<Rightarrow> ydata \<Rightarrow> diagonal_opts \<Rightarrow> plt_call list" where
  "plot_calls Ts y opts =
     [Plot Ts y (color opts) ''Classif. score'', Axhline_dashed 0.5 ''Chance level'']
     @ (case d_title opts of None \<Rightarrow> [] | Some s \<Rightarrow> [Set_title s])"

definition limit_calls :: "diagonal_opts \<Rightarrow> real \<Rightarrow> real \<Rightarrow> plt_call list" where
  "limit_calls opts lo hi =
     [Set_ylim [lo, hi]]
     @ (case xmin opts of
          None \<Rightarrow> []
        | Some a \<Rightarrow> (case xmax opts of None \<Rightarrow> [] | Some b \<Rightarrow> [Set_xlim [a, b]]))
     @ (if d_xlabel opts then [Set_xlabel ''Time (s)''] else [])"

definition final_calls :: "diagonal_opts \<Rightarrow> plt_call list" where
  "final_calls opts =
     (if legend opts then [Legend] else []) @ (if d_show opts then [Show] else [])"

definition plot_gat_diagonal :: "gat \<Rightarrow> diagonal_opts \<Rightarrow> plt_call list \<times> (py_error + figure)" where
  "plot_gat_diagonal g opts =
     (case scores g of
        None \<Rightarrow> ([], Inl RuntimeError)
      | Some sc \<Rightarrow>
          (case diagonal_scores g sc of
             Inl e \<Rightarrow> (new_axes (d_ax opts), Inl e)
           | Inr y \<Rightarrow>
               (case get_train_times g of
                  Inl e \<Rightarrow> (new_axes (d_ax opts), Inl e)
                | Inr Ts \<Rightarrow>
                    (case diagonal_ylim y opts of
                       Inl e \<Rightarrow> (new_axes (d_ax opts) @ plot_calls Ts y opts, Inl e)
                     | Inr (lo, hi) \<Rightarrow>
                         if d_ylabel opts
                         then
                           (case scorer g of
                              None \<Rightarrow>
                                (new_axes (d_ax opts) @ plot_calls Ts y opts @ limit_calls opts lo hi,
                                 Inl AttributeError)
                            | Some r \<Rightarrow>
                                (new_axes (d_ax opts) @ plot_calls Ts y opts @ limit_calls opts lo hi
                                   @ [Set_ylabel (score_label r)] @ final_calls opts,
                                 Inr (result_figure (d_ax opts))))
                         else
                           (new_axes (d_ax opts) @ plot_calls Ts y opts @ limit_calls opts lo hi
                              @ final_calls opts,
                            Inr (result_figure (d_ax opts)))))))"

subsection \<open>The loop of plot_gat_diagonal with the rounding of the subtraction\<close>

text \<open>
  \<open>t - T\<close> at line 152 and \<open>T - t[j]\<close> at line 154 are float subtractions: the result is
  the exact difference rounded to a float. The rounding is the parameter \<open>rnd\<close> of the
  definitions below. Of the rounding of IEEE arithmetic (to nearest, on finite values
  that do not overflow) the proofs use that it is monotone, that it commutes with
  negation, and that it leaves a float unchanged.
\<close>

text \<open>\<open>np.abs(t - T)\<close> in floating point: each difference is rounded, the absolute value
  of a float is exact.\<close>

definition fl_abs_diff :: "(real \<Rightarrow> real) \<Rightarrow> real list \<Rightarrow> real \<Rightarrow> real list" where
  "fl_abs_diff rnd t T = map (\<lambda>v. \<bar>rnd (v - T)\<bar>) t"

text \<open>Lines 152 to 155 with the rounded differences: \<open>accept_score\<close> with \<open>rnd\<close> around the
  two subtractions.\<close>

definition fl_accept_score ::
  "(real \<Rightarrow> real) \<Rightarrow> gat \<Rightarrow> real list list \<Rightarrow> nat \<Rightarrow> real \<Rightarrow> real list \<Rightarrow> real list
     \<Rightarrow> py_error + real list" where
  "fl_accept_score rnd g sc i T acc t =
     (case np_argmin (fl_abs_diff rnd t T) of
        Inl e \<Rightarrow> Inl e
      | Inr j \<Rightarrow>
          (case get_step g of
             Inl e \<Rightarrow> Inl e
           | Inr step \<Rightarrow>
               if rnd (T - t ! j) \<le> step
               then (case py_get2 sc i j of Inl e \<Rightarrow> Inl e | Inr v \<Rightarrow> Inr (acc[i := v]))
               else Inr acc))"

text \<open>Whether the test of line 154, as computed in floating point, comes out true.\<close>

definition fl_accepts :: "(real \<Rightarrow> real) \<Rightarrow> gat \<Rightarrow> real \<Rightarrow> real list \<Rightarrow> bool" where
  "fl_accepts rnd g T t =
     (case np_argmin (fl_abs_diff rnd t T) of
        Inl e \<Rightarrow> False
      | Inr j \<Rightarrow> (case get_step g of Inl e \<Rightarrow> False | Inr step \<Rightarrow> rnd (T - t ! j) \<le> step))"

text \<open>The two loops and the rest of the function, unchanged but for the step they call.\<close>

fun fl_scan_test_times ::
  "(real \<Rightarrow> real) \<Rightarrow> gat \<Rightarrow> real list list \<Rightarrow> nat \<Rightarrow> real \<Rightarrow> real list \<Rightarrow> real list list
     \<Rightarrow> py_error + real list" where
  "fl_scan_test_times rnd g sc i T acc [] = Inr acc"
| "fl_scan_test_times rnd g sc i T acc (t # ts) =
     (case fl_accept_score rnd g sc i T acc t of
        Inl e \<Rightarrow> Inl e
      | Inr acc' \<Rightarrow> fl_scan_test_times rnd g sc i T acc' ts)"

fun fl_diag_loop ::
  "(real \<Rightarrow> real) \<Rightarrow> gat \<Rightarrow> real list list \<Rightarrow> real list list \<Rightarrow> nat \<Rightarrow> real list \<Rightarrow> real list
     \<Rightarrow> py_error + real list" where
  "fl_diag_loop rnd g sc tts i acc [] = Inr acc"
| "fl_diag_loop rnd g sc tts i acc (T # Ts) =
     (case fl_scan_test_times rnd g sc i T acc tts of
        Inl e \<Rightarrow> Inl e
      | Inr acc' \<Rightarrow> fl_diag_loop rnd g sc tts (Suc i) acc' Ts)"

definition fl_diagonal_scores :: "(real \<Rightarrow> real) \<Rightarrow> gat \<Rightarrow> real list list \<Rightarrow> py_error + ydata" where
  "fl_diagonal_scores rnd g sc =
     (case get_test_times g of
        Inl e \<Rightarrow> Inl e
      | Inr tts \<Rightarrow>
          if single_element_tests tts then Inr (Matrix sc)
          else
            (case get_train_times g of
               Inl e \<Rightarrow> Inl e
             | Inr Ts \<Rightarrow>
                 (case fl_diag_loop rnd g sc tts 0 (replicate (length sc) 0) Ts of
                    Inl e \<Rightarrow> Inl e
                  | Inr v \<Rightarrow> Inr (Vector v))))"

definition fl_plot_gat_diagonal ::
  "(real \<Rightarrow> real) \<Rightarrow> gat \<Rightarrow> diagonal_opts \<Rightarrow> plt_call list \<times> (py_error + figure)" where
  "fl_plot_gat_diagonal rnd g opts =
     (case scores g of
        None \<Rightarrow> ([], Inl RuntimeError)
      | Some sc \<Rightarrow>
          (case fl_diagonal_scores rnd g sc of
             Inl e \<Rightarrow> (new_axes (d_ax opts), Inl e)
           | Inr y \<Rightarrow>
               (case get_train_times g of
                  Inl e \<Rightarrow> (new_axes (d_ax opts), Inl e)
                | Inr Ts \<Rightarrow>
                    (case diagonal_ylim y opts of
                       Inl e \<Rightarrow> (new_axes (d_ax opts) @ plot_calls Ts y opts, Inl e)
                     | Inr (lo, hi) \<Rightarrow>
                         if d_ylabel opts
                         then
                           (case scorer g of
                              None \<Rightarrow>
                                (new_axes (d_ax opts) @ plot_calls Ts y opts @ limit_calls opts lo hi,
                                 Inl AttributeError)
                            | Some r \<Rightarrow>
                                (new_axes (d_ax opts) @ plot_calls Ts y opts @ limit_calls opts lo hi
                                   @ [Set_ylabel (score_label r)] @ final_calls opts,
                                 Inr (result_figure (d_ax opts))))
                         else
                           (new_axes (d_ax opts) @ plot_calls Ts y opts @ limit_calls opts lo hi
                              @ final_calls opts,
                            Inr (result_figure (d_ax opts)))))))"

subsection \<open>Default arguments and concrete results objects\<close>

text \<open>The default arguments of the two signatures (lines 13 to 15 and 95 to 97).\<close>

definition default_matrix_opts :: matrix_opts where
  "default_matrix_opts =
     \<lparr>m_title = None, vmin = None, vmax = None, tlim = None, m_ax = None, cmap = ''RdBu_r'',
      m_show = True, colorbar = True, m_xlabel = True, m_ylabel = True\<rparr>"

definition default_diagonal_opts :: diagonal_opts where
  "default_diagonal_opts =
     \<lparr>d_title = None, xmin = None, xmax = None, ymin = None, ymax = None, d_ax = None,
      d_show = True, color = ''b'', d_xlabel = True, d_ylabel = True, legend = True\<rparr>"

text \<open>A scored results object with every attribute and key set: scores, training times,
  step, testing times.\<close>

definition make_gat :: "real list list \<Rightarrow> real list \<Rightarrow> real \<Rightarrow> real list list \<Rightarrow> gat" where
  "make_gat sc Ts step tts =
     \<lparr>scores = Some sc,
      train_times = Some \<lparr>train_times_times = Some Ts, train_times_step = Some step\<rparr>,
      test_times = Some \<lparr>test_times_times = Some tts\<rparr>,
      scorer = Some ''accuracy_score''\<rparr>"

text \<open>The example of the specification: a 2 x 2 matrix tested at the training times.\<close>

definition gat_example :: "real \<Rightarrow> gat" where
  "gat_example step = make_gat [[0.6, 0.7], [0.5, 0.9]] [0, 1] step [[0, 1], [0, 1]]"

text \<open>Never scored: no \<open>scores_\<close> attribute.\<close>

definition gat_unscored :: gat where
  "gat_unscored =
     \<lparr>scores = None,
      train_times = Some \<lparr>train_times_times = Some [0, 1], train_times_step = Some 1\<rparr>,
      test_times = Some \<lparr>test_times_times = Some [[0, 1], [0, 1]]\<rparr>,
      scorer = Some ''accuracy_score''\<rparr>"

text \<open>Scored, but without the two time descriptors.\<close>

definition gat_no_times :: gat where
  "gat_no_times =
     \<lparr>scores = Some [[0.6, 0.7], [0.5, 0.9]], train_times = None, test_times = None,
      scorer = Some ''accuracy_score''\<rparr>"

text \<open>One testing time per training time, and no \<open>'step'\<close> key.\<close>

definition gat_vector_no_step :: gat where
  "gat_vector_no_step =
     \<lparr>scores = Some [[0.6], [0.9]],
      train_times = Some \<lparr>train_times_times = Some [0, 1], train_times_step = None\<rparr>,
      test_times = Some \<lparr>test_times_times = Some [[0], [1]]\<rparr>,
      scorer = Some ''accuracy_score''\<rparr>"

text \<open>Trained at 0 and 1, tested only at 5 and 6.\<close>

definition gat_late :: gat where
  "gat_late = make_gat [[0.1, 0.2], [0.3, 0.4]] [0, 1] 1 [[5, 6], [5, 6]]"

text \<open>Trained at 0, 1, 2 and 3, tested on the late window 2, 3 only.\<close>

definition gat_late_window :: gat where
  "gat_late_window =
     make_gat [[0.1, 0.2], [0.3, 0.4], [0.5, 0.6], [0.7, 0.8]] [0, 1, 2, 3] 1
       [[2, 3], [2, 3], [2, 3], [2, 3]]"

text \<open>Each classifier tested at its own training time and one step later.\<close>

definition gat_shifted :: gat where
  "gat_shifted = make_gat [[0.6, 0.7], [0.5, 0.9]] [0, 1] 1 [[0, 1], [1, 2]]"

text \<open>Testing-time arrays of different lengths and different ends.\<close>

definition gat_ragged :: gat where
  "gat_ragged = make_gat [[0.6, 0.7], [0.5, 0.9]] [0, 1] 1 [[0, 1], [1, 2, 3]]"


text \<open>A rounding to use where a concrete one is needed: to the nearest multiple of
  \<open>2^-52\<close> (4503599627370496 is \<open>2^52\<close>), halves away from zero. Between 1 and 2 in
  absolute value these multiples are the floats of 64 bits.\<close>

definition round_grid :: "real \<Rightarrow> real" where
  "round_grid x =
     (if 0 \<le> x then of_int \<lfloor>x * 4503599627370496 + 1 / 2\<rfloor> / 4503599627370496
      else - (of_int \<lfloor>- x * 4503599627370496 + 1 / 2\<rfloor> / 4503599627370496))"

text \<open>Training times -2 and 1, step 1; the first testing-time array holds \<open>-2^-60\<close>
  (1152921504606846976 is \<open>2^60\<close>) and 0, whose distances to 1 differ by less than the
  subtraction resolves.\<close>

definition gat_tie :: gat where
  "gat_tie =
     make_gat [[0.6, 0.7], [0.5, 0.9]] [- 2, 1] 1
       [[- (1 / 1152921504606846976), 0], [- 3, - 2]]"

section \<open>Auxiliary facts\<close>

lemmas eval_defs =
  make_gat_def default_matrix_opts_def default_diagonal_opts_def
  plot_gat_diagonal_def diagonal_scores_def get_test_times_def get_train_times_def get_step_def
  single_element_tests_def np_unique_def accept_score_def np_argmin_def np_abs_diff_def py_get2_def
  new_axes_def result_figure_def diagonal_ylim_def np_min_def np_max_def np_min_flat_def
  np_max_flat_def rectangular_def plot_calls_def limit_calls_def final_calls_def score_label_def
  plot_gat_matrix_def matrix_color_bounds_def matrix_tlim_def default_tlim_def py_first_def
  py_last_def matrix_calls_def accepts_def

lemmas fl_eval_defs =
  gat_tie_def make_gat_def fl_diagonal_scores_def get_test_times_def get_train_times_def
  get_step_def single_element_tests_def np_unique_def fl_accept_score_def np_argmin_def
  fl_abs_diff_def py_get2_def round_grid_def fl_accepts_def

subsection \<open>Minimum, maximum and argmin\<close>

lemma fold_min_Min: "fold min ys (x::real) = Min (set (x # ys))"
  by (simp only: Min.set_eq_fold)

lemma fold_max_Max: "fold max ys (x::real) = Max (set (x # ys))"
  by (simp only: Max.set_eq_fold)

lemma np_min_flat_Min: "xs \<noteq> [] \<Longrightarrow> np_min_flat xs = Inr (Min (set xs))"
  by (cases xs) (simp_all add: np_min_flat_def fold_min_Min del: Min_insert)

lemma np_max_flat_Max: "xs \<noteq> [] \<Longrightarrow> np_max_flat xs = Inr (Max (set xs))"
  by (cases xs) (simp_all add: np_max_flat_def fold_max_Max del: Max_insert)

lemma square_rectangular: "list_all (\<lambda>r. length r = n) sc \<Longrightarrow> rectangular sc"
  by (cases sc) (auto simp: rectangular_def list_all_iff)

lemma first_index_found:
  "m \<in> set xs \<Longrightarrow> first_index xs m < length xs \<and> xs ! first_index xs m = m"
  by (induction xs) auto

lemma np_argmin_least:
  assumes "xs \<noteq> []"
  shows "\<exists>j. np_argmin xs = Inr j \<and> j < length xs \<and> list_all (\<lambda>x. xs ! j \<le> x) xs"
proof -
  from assms obtain x ys where xs: "xs = x # ys" by (cases xs) auto
  let ?m = "Min (set xs)"
  have m_in: "?m \<in> set xs" using assms by (intro Min_in) auto
  have le: "\<And>y. y \<in> set xs \<Longrightarrow> ?m \<le> y" by (intro Min_le) auto
  have arg: "np_argmin xs = Inr (first_index xs ?m)"
    by (simp add: np_argmin_def xs fold_min_Min del: Min_insert)
  with first_index_found[OF m_in] le show ?thesis
    by (auto simp: list_all_iff)
qed

text \<open>The index found at line 152 is in range and no testing time of the array is closer
  to \<open>T\<close> than the one it points at.\<close>

lemma np_argmin_nearest:
  assumes "t \<noteq> []"
  shows "\<exists>j. np_argmin (np_abs_diff t T) = Inr j \<and> j < length t \<and>
             list_all (\<lambda>u. \<bar>t ! j - T\<bar> \<le> \<bar>u - T\<bar>) t"
proof -
  have "np_abs_diff t T \<noteq> []" using assms by (simp add: np_abs_diff_def)
  from np_argmin_least[OF this] obtain j where
    j: "np_argmin (np_abs_diff t T) = Inr j" "j < length t"
       "list_all (\<lambda>x. np_abs_diff t T ! j \<le> x) (np_abs_diff t T)"
    by (auto simp: np_abs_diff_def)
  then show ?thesis by (auto simp: np_abs_diff_def list_all_iff)
qed

lemma py_first_hd: "xs \<noteq> [] \<Longrightarrow> py_first xs = Inr (hd xs)"
  by (cases xs) (simp_all add: py_first_def)

lemma py_last_last: "xs \<noteq> [] \<Longrightarrow> py_last xs = Inr (last xs)"
  by (simp add: py_last_def)

lemma single_element_tests_iff: "single_element_tests tts = list_all (\<lambda>t. length t = 1) tts"
  by (auto simp: single_element_tests_def np_unique_def list_all_iff)

subsection \<open>Absent time descriptors\<close>

lemma get_times_missing:
  "train_times g = None \<Longrightarrow> get_train_times g = Inl AttributeError"
  "test_times g = None \<Longrightarrow> get_test_times g = Inl AttributeError"
  by (simp_all add: get_train_times_def get_test_times_def)

lemma get_times_errors:
  "get_train_times g = Inl e \<Longrightarrow> e = AttributeError \<or> e = KeyError"
  "get_test_times g = Inl e \<Longrightarrow> e = AttributeError \<or> e = KeyError"
  by (auto simp: get_train_times_def get_test_times_def split: option.splits)

lemma diagonal_missing_times:
  assumes "scores g = Some sc" and "train_times g = None \<or> test_times g = None"
  shows "\<exists>e. plot_gat_diagonal g dopts = (new_axes (d_ax dopts), Inl e) \<and>
             (e = AttributeError \<or> e = KeyError)"
proof (cases "get_test_times g")
  case (Inl e)
  with assms(1) get_times_errors(2)[OF Inl] show ?thesis
    by (simp add: plot_gat_diagonal_def diagonal_scores_def)
next
  case (Inr tts)
  with assms(2) have tr: "get_train_times g = Inl AttributeError"
    by (auto simp: get_times_missing)
  with assms(1) Inr show ?thesis
    by (simp add: plot_gat_diagonal_def diagonal_scores_def)
qed

lemma matrix_missing_times:
  assumes "scores g = Some sc" and "train_times g = None \<or> test_times g = None"
    and "tlim mopts = None" and "matrix_color_bounds sc mopts = Inr b"
  shows "\<exists>e. plot_gat_matrix g mopts = (new_axes (m_ax mopts), Inl e) \<and>
             (e = AttributeError \<or> e = KeyError)"
proof (cases "get_train_times g")
  case (Inl e)
  with assms(1,3,4) get_times_errors(1)[OF Inl] show ?thesis
    by (cases b) (simp add: plot_gat_matrix_def matrix_tlim_def default_tlim_def)
next
  case (Inr tt)
  with assms(2) have "get_test_times g = Inl AttributeError"
    by (auto simp: get_times_missing get_train_times_def)
  with assms(1,3,4) Inr show ?thesis
    by (cases b) (simp add: plot_gat_matrix_def matrix_tlim_def default_tlim_def)
qed

subsection \<open>One testing-time array\<close>


text \<open>The index found at line 152 is in range, and no testing time of the array has a
  smaller computed distance to \<open>T\<close> than the one it points at.\<close>

lemma fl_argmin_nearest:
  assumes "t \<noteq> []"
  shows "\<exists>j. np_argmin (fl_abs_diff rnd t T) = Inr j \<and> j < length t \<and>
             list_all (\<lambda>u. \<bar>rnd (t ! j - T)\<bar> \<le> \<bar>rnd (u - T)\<bar>) t"
proof -
  have "fl_abs_diff rnd t T \<noteq> []" using assms by (simp add: fl_abs_diff_def)
  from np_argmin_least[OF this] obtain j where
    j: "np_argmin (fl_abs_diff rnd t T) = Inr j" "j < length t"
       "list_all (\<lambda>x. fl_abs_diff rnd t T ! j \<le> x) (fl_abs_diff rnd t T)"
    by (auto simp: fl_abs_diff_def)
  then show ?thesis by (auto simp: fl_abs_diff_def list_all_iff)
qed

text \<open>A testing time within one step of \<open>T\<close> is within one step after rounding too.\<close>

lemma rounded_distance_within_step:
  fixes rnd :: "real \<Rightarrow> real"
  assumes "mono rnd" and "\<And>x. rnd (- x) = - rnd x" and "rnd step = step"
    and "\<bar>T - u\<bar> \<le> step"
  shows "\<bar>rnd (u - T)\<bar> \<le> step"
proof -
  from assms(4) have "u - T \<le> step" "T - u \<le> step" by linarith+
  with assms(1) have "rnd (u - T) \<le> rnd step" "rnd (T - u) \<le> rnd step"
    by (auto dest: monoD)
  moreover have "rnd (T - u) = - rnd (u - T)" using assms(2)[of "u - T"] by simp
  ultimately show ?thesis using assms(3) by linarith
qed

lemma fl_within_step_accepts:
  assumes "mono rnd" and "\<And>x. rnd (- x) = - rnd x" and "rnd step = step"
    and "u \<in> set t" and "\<bar>T - u\<bar> \<le> step" and "get_step g = Inr step"
  shows "fl_accepts rnd g T t"
proof -
  from assms(4) have "t \<noteq> []" by auto
  from fl_argmin_nearest[OF this, of rnd T] obtain j where
    j: "np_argmin (fl_abs_diff rnd t T) = Inr j"
       "list_all (\<lambda>u. \<bar>rnd (t ! j - T)\<bar> \<le> \<bar>rnd (u - T)\<bar>) t" by blast
  with assms(4) have "\<bar>rnd (t ! j - T)\<bar> \<le> \<bar>rnd (u - T)\<bar>" by (auto simp: list_all_iff)
  also have "\<dots> \<le> step" using rounded_distance_within_step[OF assms(1,2,3,5)] .
  finally have "\<bar>rnd (t ! j - T)\<bar> \<le> step" .
  moreover have "rnd (T - t ! j) = - rnd (t ! j - T)" using assms(2)[of "t ! j - T"] by simp
  ultimately have "rnd (T - t ! j) \<le> step" by linarith
  with j(1) assms(6) show ?thesis by (simp add: fl_accepts_def)
qed

lemma fl_accept_score_rejected:
  "\<not> fl_accepts rnd g T t \<Longrightarrow> fl_accept_score rnd g sc i T acc t = Inr acc' \<Longrightarrow> acc' = acc"
  by (auto simp: fl_accepts_def fl_accept_score_def split: sum.splits if_splits)

lemma fl_accept_score_accepted:
  assumes "fl_accept_score rnd g sc i T acc t = Inr acc'"
    "np_argmin (fl_abs_diff rnd t T) = Inr j" "fl_accepts rnd g T t"
  shows "i < length sc \<and> j < length (sc ! i) \<and> acc' = acc[i := sc ! i ! j]"
  using assms
  by (auto simp: fl_accepts_def fl_accept_score_def py_get2_def split: sum.splits if_splits)

lemma fl_accept_score_frame:
  "fl_accept_score rnd g sc i T acc t = Inr acc' \<Longrightarrow>
     length acc' = length acc \<and> (\<forall>k. k \<noteq> i \<longrightarrow> acc' ! k = acc ! k)"
  by (auto simp: fl_accept_score_def split: sum.splits if_splits)

lemma fl_accept_score_returns:
  assumes "t \<noteq> []" and "get_step g = Inr step" and "i < length sc"
    and "length t \<le> length (sc ! i)"
  shows "\<exists>acc'. fl_accept_score rnd g sc i T acc t = Inr acc'"
proof -
  from fl_argmin_nearest[OF assms(1), of rnd T] obtain j where
    "np_argmin (fl_abs_diff rnd t T) = Inr j" "j < length t" by blast
  with assms show ?thesis by (simp add: fl_accept_score_def py_get2_def)
qed

subsection \<open>The inner loop\<close>

lemma fl_scan_frame:
  "fl_scan_test_times rnd g sc i T acc ts = Inr acc' \<Longrightarrow>
     length acc' = length acc \<and> (\<forall>k. k \<noteq> i \<longrightarrow> acc' ! k = acc ! k)"
proof (induction ts arbitrary: acc)
  case Nil
  then show ?case by simp
next
  case (Cons t ts)
  then obtain a where
    a: "fl_accept_score rnd g sc i T acc t = Inr a" "fl_scan_test_times rnd g sc i T a ts = Inr acc'"
    by (auto split: sum.splits)
  from fl_accept_score_frame[OF a(1)] Cons.IH[OF a(2)] show ?case by simp
qed

lemma fl_scan_append:
  "fl_scan_test_times rnd g sc i T acc (pre @ post) =
     (case fl_scan_test_times rnd g sc i T acc pre of
        Inl e \<Rightarrow> Inl e
      | Inr a \<Rightarrow> fl_scan_test_times rnd g sc i T a post)"
  by (induction pre arbitrary: acc) (auto split: sum.splits)

lemma fl_scan_rejected:
  "list_all (\<lambda>t. \<not> fl_accepts rnd g T t) ts \<Longrightarrow>
     fl_scan_test_times rnd g sc i T acc ts = Inr acc' \<Longrightarrow> acc' = acc"
proof (induction ts arbitrary: acc)
  case Nil
  then show ?case by simp
next
  case (Cons t ts)
  then obtain a where
    a: "fl_accept_score rnd g sc i T acc t = Inr a" "fl_scan_test_times rnd g sc i T a ts = Inr acc'"
    by (auto split: sum.splits)
  from Cons.prems(1) have "\<not> fl_accepts rnd g T t" "list_all (\<lambda>t. \<not> fl_accepts rnd g T t) ts"
    by simp_all
  with fl_accept_score_rejected[OF _ a(1)] Cons.IH[OF _ a(2)] show ?case by simp
qed

text \<open>The write that survives the inner loop is the one of the last array that passes the
  test.\<close>

lemma fl_scan_last_accepted:
  assumes "fl_scan_test_times rnd g sc i T acc (pre @ t # post) = Inr b"
    and "np_argmin (fl_abs_diff rnd t T) = Inr j" and "fl_accepts rnd g T t"
    and "list_all (\<lambda>t'. \<not> fl_accepts rnd g T t') post"
  shows "i < length sc \<and> j < length (sc ! i) \<and> length b = length acc \<and>
         (i < length acc \<longrightarrow> b ! i = sc ! i ! j)"
proof -
  from assms(1) obtain a a' where
    a: "fl_scan_test_times rnd g sc i T acc pre = Inr a"
    and a': "fl_accept_score rnd g sc i T a t = Inr a'"
    and b: "fl_scan_test_times rnd g sc i T a' post = Inr b"
    by (auto simp: fl_scan_append split: sum.splits)
  from fl_accept_score_accepted[OF a' assms(2,3)]
  have acc: "i < length sc" "j < length (sc ! i)" "a' = a[i := sc ! i ! j]" by simp_all
  from fl_scan_rejected[OF assms(4) b] have "b = a'" .
  moreover from fl_scan_frame[OF a] have "length a = length acc" by simp
  ultimately show ?thesis using acc by simp
qed

lemma fl_scan_returns:
  assumes "list_all (\<lambda>t. t \<noteq> [] \<and> length t \<le> length (sc ! i)) ts"
    and "get_step g = Inr step" and "i < length sc"
  shows "\<exists>acc'. fl_scan_test_times rnd g sc i T acc ts = Inr acc'"
  using assms(1)
proof (induction ts arbitrary: acc)
  case Nil
  then show ?case by simp
next
  case (Cons t ts)
  then have "t \<noteq> []" "length t \<le> length (sc ! i)" by simp_all
  from fl_accept_score_returns[OF this(1) assms(2,3) this(2), of rnd T acc] obtain a where
    "fl_accept_score rnd g sc i T acc t = Inr a" by blast
  moreover from Cons obtain b where "fl_scan_test_times rnd g sc i T a ts = Inr b" by fastforce
  ultimately show ?case by simp
qed

subsection \<open>The outer loop\<close>

lemma fl_diag_loop_frame:
  "fl_diag_loop rnd g sc tts i acc Ts = Inr v \<Longrightarrow>
     length v = length acc \<and> (\<forall>k<i. v ! k = acc ! k)"
proof (induction Ts arbitrary: i acc)
  case Nil
  then show ?case by simp
next
  case (Cons T Ts)
  then obtain a where
    a: "fl_scan_test_times rnd g sc i T acc tts = Inr a"
       "fl_diag_loop rnd g sc tts (Suc i) a Ts = Inr v"
    by (auto split: sum.splits)
  from fl_scan_frame[OF a(1)] Cons.IH[OF a(2)] show ?case by auto
qed

text \<open>The entry for the training time at position \<open>n\<close> is what the inner loop of that
  iteration left there, and that loop started from the entry's initial value.\<close>

lemma fl_diag_loop_nth:
  "fl_diag_loop rnd g sc tts i acc Ts = Inr v \<Longrightarrow> n < length Ts \<Longrightarrow>
     \<exists>a b. fl_scan_test_times rnd g sc (i + n) (Ts ! n) a tts = Inr b \<and> length a = length acc \<and>
           a ! (i + n) = acc ! (i + n) \<and> v ! (i + n) = b ! (i + n)"
proof (induction Ts arbitrary: i acc n)
  case Nil
  then show ?case by simp
next
  case (Cons T Ts)
  then obtain a where
    a: "fl_scan_test_times rnd g sc i T acc tts = Inr a"
       "fl_diag_loop rnd g sc tts (Suc i) a Ts = Inr v"
    by (auto split: sum.splits)
  show ?case
  proof (cases n)
    case 0
    from fl_diag_loop_frame[OF a(2)] have "v ! i = a ! i" by simp
    with a(1) 0 show ?thesis by auto
  next
    case (Suc m)
    with Cons.prems(2) have "m < length Ts" by simp
    from Cons.IH[OF a(2) this] fl_scan_frame[OF a(1)] Suc show ?thesis by auto
  qed
qed

text \<open>The loops raise nothing when the step is set, no testing-time array is empty and
  every score row is at least as long as every testing-time array.\<close>

lemma fl_diag_loop_returns:
  assumes "get_step g = Inr step"
    and "list_all (\<lambda>r. list_all (\<lambda>t. t \<noteq> [] \<and> length t \<le> length r) tts) sc"
    and "i + length Ts \<le> length sc"
  shows "\<exists>v. fl_diag_loop rnd g sc tts i acc Ts = Inr v"
  using assms(3)
proof (induction Ts arbitrary: i acc)
  case Nil
  then show ?case by simp
next
  case (Cons T Ts)
  then have i: "i < length sc" by simp
  with assms(2) have "list_all (\<lambda>t. t \<noteq> [] \<and> length t \<le> length (sc ! i)) tts"
    by (simp add: list_all_length)
  from fl_scan_returns[OF this assms(1) i, of rnd T acc] obtain a where
    "fl_scan_test_times rnd g sc i T acc tts = Inr a" by blast
  moreover from Cons have "\<exists>v. fl_diag_loop rnd g sc tts (Suc i) a Ts = Inr v" by simp
  ultimately show ?case by auto
qed

text \<open>A training time for which no array passes the test keeps the zero it started with.\<close>

lemma fl_rejected_time_keeps_zero:
  assumes "fl_diag_loop rnd g sc tts 0 (replicate (length sc) 0) Ts = Inr v"
    and "i < length Ts" and "i < length sc"
    and "list_all (\<lambda>t. \<not> fl_accepts rnd g (Ts ! i) t) tts"
  shows "v ! i = 0"
proof -
  from fl_diag_loop_nth[OF assms(1,2)] obtain a b where
    ab: "fl_scan_test_times rnd g sc i (Ts ! i) a tts = Inr b"
        "a ! i = replicate (length sc) 0 ! i" "v ! i = b ! i"
    by auto
  from fl_scan_rejected[OF assms(4) ab(1)] have "b = a" .
  with ab(2,3) assms(3) show ?thesis by simp
qed

subsection \<open>The exact loop is the loop with the identity as rounding\<close>

lemma fl_exact:
  "fl_abs_diff (\<lambda>x. x) t T = np_abs_diff t T"
  "fl_accept_score (\<lambda>x. x) g sc i T acc t = accept_score g sc i T acc t"
  "fl_accepts (\<lambda>x. x) g T t = accepts g T t"
  by (simp_all add: fl_abs_diff_def np_abs_diff_def fl_accept_score_def accept_score_def
      fl_accepts_def accepts_def)

lemma fl_scan_exact:
  "fl_scan_test_times (\<lambda>x. x) g sc i T acc ts = scan_test_times g sc i T acc ts"
  by (induction ts arbitrary: acc) (simp_all add: fl_exact split: sum.splits)

lemma fl_diag_loop_exact:
  "fl_diag_loop (\<lambda>x. x) g sc tts i acc Ts = diag_loop g sc tts i acc Ts"
  by (induction Ts arbitrary: i acc) (simp_all add: fl_scan_exact split: sum.splits)

lemma fl_diagonal_scores_exact:
  "fl_diagonal_scores (\<lambda>x. x) g sc = diagonal_scores g sc"
  by (simp add: fl_diagonal_scores_def diagonal_scores_def fl_diag_loop_exact
      cong: sum.case_cong if_cong)

lemma fl_plot_gat_diagonal_exact:
  "fl_plot_gat_diagonal (\<lambda>x. x) g opts = plot_gat_diagonal g opts"
  by (simp add: fl_plot_gat_diagonal_def plot_gat_diagonal_def fl_diagonal_scores_exact
      cong: option.case_cong)

subsection \<open>The example rounding\<close>

lemma round_grid_odd: "round_grid (- x) = - round_grid x"
  by (simp add: round_grid_def)

lemma round_grid_nonneg:
  "0 \<le> x \<Longrightarrow> round_grid x = of_int \<lfloor>x * 4503599627370496 + 1 / 2\<rfloor> / 4503599627370496"
  by (simp add: round_grid_def)

lemma round_grid_neg:
  "x < 0 \<Longrightarrow> round_grid x = - round_grid (- x)"
  by (simp add: round_grid_def)

lemma round_grid_mono_nonneg:
  assumes "0 \<le> x" and "x \<le> y"
  shows "0 \<le> round_grid x \<and> round_grid x \<le> round_grid y"
proof -
  from assms have y: "0 \<le> y" by simp
  have "(0::int) \<le> \<lfloor>x * 4503599627370496 + 1 / 2\<rfloor>" using assms(1) by simp
  moreover have "\<lfloor>x * 4503599627370496 + 1 / 2\<rfloor> \<le> \<lfloor>y * 4503599627370496 + 1 / 2\<rfloor>"
    using assms(2) by (intro floor_mono) simp
  ultimately show ?thesis
    by (simp add: round_grid_nonneg[OF assms(1)] round_grid_nonneg[OF y] divide_right_mono)
qed

lemma round_grid_mono: "mono round_grid"
proof (rule monoI)
  fix x y :: real
  assume xy: "x \<le> y"
  show "round_grid x \<le> round_grid y"
  proof (cases "0 \<le> x")
    case True
    with xy round_grid_mono_nonneg show ?thesis by blast
  next
    case False
    then have x: "x < 0" by simp
    show ?thesis
    proof (cases "0 \<le> y")
      case True
      from x have "0 \<le> round_grid (- x)" using round_grid_mono_nonneg[of "- x" "- x"] by simp
      moreover from True have "0 \<le> round_grid y" using round_grid_mono_nonneg[of y y] by simp
      ultimately show ?thesis using round_grid_neg[OF x] by simp
    next
      case False
      then have y: "y < 0" by simp
      with xy have "0 \<le> - y" "- y \<le> - x" by simp_all
      from round_grid_mono_nonneg[OF this] round_grid_neg[OF x] round_grid_neg[OF y]
      show ?thesis by simp
    qed
  qed
qed

subsection \<open>What is plotted\<close>

lemma plot_call_made:
  assumes "scores g = Some sc" "diagonal_scores g sc = Inr y" "get_train_times g = Inr Ts"
  shows "Plot Ts y (color dopts) ''Classif. score'' \<in> set (fst (plot_gat_diagonal g dopts))"
  using assms
  by (auto simp: plot_gat_diagonal_def plot_calls_def split: sum.splits option.splits prod.splits)

lemma fl_plot_call_made:
  assumes "scores g = Some sc" "fl_diagonal_scores rnd g sc = Inr y" "get_train_times g = Inr Ts"
  shows "Plot Ts y (color dopts) ''Classif. score''
           \<in> set (fst (fl_plot_gat_diagonal rnd g dopts))"
  using assms
  by (auto simp: fl_plot_gat_diagonal_def plot_calls_def
      split: sum.splits option.splits prod.splits)


section \<open>Properties\<close>

subsection \<open>Results that were never scored\<close>

text \<open>
  Claim C1. When the results object has no \<open>scores_\<close> attribute, \<open>plot_gat_matrix\<close> and
  \<open>plot_gat_diagonal\<close> both raise the RuntimeError of lines 56 and 136, and the list of
  matplotlib calls made is empty: nothing was drawn, not even the figure was created.
\<close>

theorem unscored_raises_before_drawing:
  "scores g = None \<Longrightarrow>
     plot_gat_matrix g mopts = ([], Inl RuntimeError) \<and>
     plot_gat_diagonal g dopts = ([], Inl RuntimeError)"
  by (simp add: plot_gat_matrix_def plot_gat_diagonal_def)

text \<open>C1 at a results object that has its time descriptors but no scores, with the default
  arguments.\<close>

theorem unscored_raises_before_drawing_witness:
  "scores gat_unscored = None \<and>
   plot_gat_matrix gat_unscored default_matrix_opts = ([], Inl RuntimeError) \<and>
   plot_gat_diagonal gat_unscored default_diagonal_opts = ([], Inl RuntimeError)"
proof -
  have h: "scores gat_unscored = None" by (simp add: gat_unscored_def)
  show ?thesis
    using h unscored_raises_before_drawing
      [OF h, of default_matrix_opts default_diagonal_opts]
    by simp
qed

subsection \<open>The acceptance test of the diagonal\<close>

text \<open>
  Claim C2 says that, in the loop of \<open>plot_gat_diagonal\<close>, the closest testing time is found
  by absolute difference and its score is accepted only when the distance between the
  training time and that testing time is at most one step. The first half holds
  (\<open>np_argmin_nearest\<close>). The second does not: line 154 compares the signed difference
  \<open>T - t[j]\<close> with the step, although the comment above it asks for "not more than 1
  classifier away". For the training time 0, the step 1 and the testing times 5 and 6, the
  closest testing time is 5, at distance 5, and the score is accepted all the same: the
  loop writes 0.1 for the training time 0, and the function plots 0.1 and 0.3.
\<close>

theorem far_later_time_accepted:
  "get_step gat_late = Inr 1 \<and>
   np_argmin (np_abs_diff [5, 6] 0) = Inr 0 \<and>
   \<bar>0 - [5, 6::real] ! 0\<bar> = 5 \<and>
   accept_score gat_late [[0.1, 0.2], [0.3, 0.4]] 0 0 [0, 0] [5, 6] = Inr [0.1, 0] \<and>
   diagonal_scores gat_late [[0.1, 0.2], [0.3, 0.4]] = Inr (Vector [0.1, 0.3]) \<and>
   Plot [0, 1] (Vector [0.1, 0.3]) ''b'' ''Classif. score''
     \<in> set (fst (plot_gat_diagonal gat_late default_diagonal_opts))"
  by (simp add: gat_late_def eval_defs)

text \<open>
  Claim C3 says that a training time with no testing time within one step, in any array,
  is reported with the score 0. The same signed comparison breaks it: with training
  times 0, 1, 2, 3, step 1 and every classifier tested at 2 and 3, the training time 0 is
  at distance 2 and 3 from the testing times, yet its reported score is 0.1, read from
  the column of the testing time 2.
\<close>

theorem out_of_tolerance_not_zero:
  "get_test_times gat_late_window = Inr [[2, 3], [2, 3], [2, 3], [2, 3]] \<and>
   get_train_times gat_late_window = Inr [0, 1, 2, 3] \<and>
   get_step gat_late_window = Inr 1 \<and>
   list_all (list_all (\<lambda>u. \<bar>[0, 1, 2, 3] ! 0 - u\<bar> > 1)) [[2, 3], [2, 3], [2, 3], [2, 3::real]] \<and>
   \<not> single_element_tests [[2, 3], [2, 3], [2, 3], [2, 3]] \<and>
   diagonal_scores gat_late_window [[0.1, 0.2], [0.3, 0.4], [0.5, 0.6], [0.7, 0.8]]
     = Inr (Vector [0.1, 0.3, 0.5, 0.8]) \<and>
   [0.1, 0.3, 0.5, 0.8::real] ! 0 \<noteq> 0 \<and>
   Plot [0, 1, 2, 3] (Vector [0.1, 0.3, 0.5, 0.8]) ''b'' ''Classif. score''
     \<in> set (fst (plot_gat_diagonal gat_late_window default_diagonal_opts))"
  by (simp add: gat_late_window_def eval_defs)

subsection \<open>Which score the diagonal selects\<close>

text \<open>
  Claim C4 as stated gives, for every testing-time array with a value within one step of
  \<open>T\<close>, the score at that array's closest index as the score selected for \<open>T\<close>. The inner
  loop goes through all arrays and each accepted one overwrites \<open>scores[i]\<close>. With
  training times 0 and 1, step 1 and the testing times \<open>[0, 1]\<close> and \<open>[1, 2]\<close>, the first
  array holds the training time 1 itself, at index 1, but the score plotted for the
  training time 1 is the one at index 0 (0.5, not 0.9): the second array was scanned
  later and its closest value is at index 0.
\<close>

theorem earlier_sequence_overwritten:
  "get_test_times gat_shifted = Inr [[0, 1], [1, 2]] \<and>
   get_train_times gat_shifted = Inr [0, 1] \<and>
   get_step gat_shifted = Inr 1 \<and>
   \<not> single_element_tests [[0, 1], [1, 2]] \<and>
   \<bar>[0, 1::real] ! 1 - [0, 1] ! 1\<bar> \<le> 1 \<and>
   np_argmin (np_abs_diff [0, 1] ([0, 1] ! 1)) = Inr 1 \<and>
   diagonal_scores gat_shifted [[0.6, 0.7], [0.5, 0.9]] = Inr (Vector [0.6, 0.5]) \<and>
   [0.6, 0.5::real] ! 1 \<noteq> [[0.6, 0.7], [0.5, 0.9]] ! 1 ! 1"
  by (simp add: gat_shifted_def eval_defs)

text \<open>
  Claim C4, amended. The times are floats and \<open>rnd\<close> is the rounding of their subtraction:
  monotone, commuting with negation, and leaving the step, a float, unchanged. Take a
  results object on the loop path (not every testing-time array has one element) for
  which the loop raises nothing, a training time \<open>Ts ! i\<close>, and a testing-time array \<open>t\<close>
  that holds a value within one step of it, such that no array scanned after \<open>t\<close> passes
  the test of line 154 as the code computes it. Then the index \<open>j\<close> that line 152 finds
  in \<open>t\<close> is the first one whose computed distance to the training time is least, and
  the score plotted for the training time is \<open>scores_[i][j]\<close>. The last accepted array
  decides, and "closest" is by the rounded distance.
\<close>

theorem last_accepted_sequence_selected:
  assumes "mono rnd" and "\<And>x. rnd (- x) = - rnd x" and "rnd step = step"
    and "scores g = Some sc"
    and "get_test_times g = Inr (pre @ t # post)"
    and "get_train_times g = Inr Ts"
    and "get_step g = Inr step"
    and "\<not> single_element_tests (pre @ t # post)"
    and "i < length Ts"
    and "u \<in> set t" and "\<bar>Ts ! i - u\<bar> \<le> step"
    and "list_all (\<lambda>t'. \<not> fl_accepts rnd g (Ts ! i) t') post"
    and "fl_diagonal_scores rnd g sc = Inr y"
  shows "\<exists>j v. np_argmin (fl_abs_diff rnd t (Ts ! i)) = Inr j \<and> j < length t \<and>
           list_all (\<lambda>u'. \<bar>rnd (t ! j - Ts ! i)\<bar> \<le> \<bar>rnd (u' - Ts ! i)\<bar>) t \<and>
           y = Vector v \<and> length v = length sc \<and> i < length sc \<and> j < length (sc ! i) \<and>
           v ! i = sc ! i ! j \<and>
           Plot Ts (Vector v) (color dopts) ''Classif. score''
             \<in> set (fst (fl_plot_gat_diagonal rnd g dopts))"
proof -
  from assms(10) have "t \<noteq> []" by auto
  from fl_argmin_nearest[OF this, of rnd "Ts ! i"] obtain j where
    j: "np_argmin (fl_abs_diff rnd t (Ts ! i)) = Inr j" "j < length t"
       "list_all (\<lambda>u'. \<bar>rnd (t ! j - Ts ! i)\<bar> \<le> \<bar>rnd (u' - Ts ! i)\<bar>) t" by blast
  have acc: "fl_accepts rnd g (Ts ! i) t"
    using fl_within_step_accepts[OF assms(1,2,3,10,11,7)] .
  from assms(13,5,6,8) obtain v where
    v: "fl_diag_loop rnd g sc (pre @ t # post) 0 (replicate (length sc) 0) Ts = Inr v"
       "y = Vector v"
    by (auto simp: fl_diagonal_scores_def split: sum.splits)
  from fl_diag_loop_nth[OF v(1) assms(9)] obtain a b where
    ab: "fl_scan_test_times rnd g sc i (Ts ! i) a (pre @ t # post) = Inr b"
        "length a = length sc" "v ! i = b ! i"
    by auto
  from fl_scan_last_accepted[OF ab(1) j(1) acc assms(12)] ab(2,3)
  have sel: "i < length sc" "j < length (sc ! i)" "v ! i = sc ! i ! j" by auto
  from fl_diag_loop_frame[OF v(1)] have len: "length v = length sc" by simp
  from fl_plot_call_made[OF assms(4) assms(13) assms(6)] v(2)
  have "Plot Ts (Vector v) (color dopts) ''Classif. score''
          \<in> set (fst (fl_plot_gat_diagonal rnd g dopts))" by simp
  with j sel len v(2) show ?thesis by blast
qed

text \<open>The amended C4 at \<open>gat_tie\<close> and the training time 1, with the example rounding. The
  testing times \<open>-2^-60\<close> and 0 have the distances \<open>1 + 2^-60\<close> and 1, and both round to 1:
  line 152 finds the index 0, not the index 1 of the exactly closest time. The value 0
  is within one step, the array \<open>[-3, -2]\<close> scanned afterwards is rejected (1 + 2 exceeds
  the step), and the score plotted for the training time 1 is \<open>scores_[1][0]\<close>, 0.5.\<close>

theorem last_accepted_sequence_selected_witness:
  "round_grid 1 = 1 \<and>
   \<not> single_element_tests [[- (1 / 1152921504606846976), 0], [- 3, - 2]] \<and>
   (0::real) \<in> set [- (1 / 1152921504606846976), 0] \<and> \<bar>[- 2, 1::real] ! 1 - 0\<bar> \<le> 1 \<and>
   list_all (\<lambda>t'. \<not> fl_accepts round_grid gat_tie ([- 2, 1] ! 1) t') [[- 3, - 2]] \<and>
   fl_abs_diff round_grid [- (1 / 1152921504606846976), 0] ([- 2, 1] ! 1) = [1, 1] \<and>
   np_argmin (fl_abs_diff round_grid [- (1 / 1152921504606846976), 0] ([- 2, 1] ! 1)) = Inr 0 \<and>
   fl_diagonal_scores round_grid gat_tie [[0.6, 0.7], [0.5, 0.9]] = Inr (Vector [0.7, 0.5]) \<and>
   (\<exists>j v. np_argmin (fl_abs_diff round_grid [- (1 / 1152921504606846976), 0] ([- 2, 1] ! 1)) = Inr j \<and>
      Vector [0.7, 0.5] = Vector v \<and>
      v ! 1 = [[0.6, 0.7], [0.5, 0.9]] ! 1 ! j \<and>
      Plot [- 2, 1] (Vector v) (color default_diagonal_opts) ''Classif. score''
        \<in> set (fst (fl_plot_gat_diagonal round_grid gat_tie default_diagonal_opts)))"
proof -
  have r: "round_grid 1 = 1" by (simp add: round_grid_def)
  have 1: "scores gat_tie = Some [[0.6, 0.7], [0.5, 0.9]]"
    by (simp add: gat_tie_def make_gat_def)
  have 2: "get_test_times gat_tie = Inr ([] @ [- (1 / 1152921504606846976), 0] # [[- 3, - 2]])"
    by (simp add: gat_tie_def make_gat_def get_test_times_def)
  have 3: "get_train_times gat_tie = Inr [- 2, 1]"
    by (simp add: gat_tie_def make_gat_def get_train_times_def)
  have 4: "get_step gat_tie = Inr 1"
    by (simp add: gat_tie_def make_gat_def get_step_def)
  have 5: "\<not> single_element_tests ([] @ [- (1 / 1152921504606846976), 0] # [[- 3, - 2]])"
    by (simp add: single_element_tests_def np_unique_def)
  have 6: "1 < length [- 2, 1::real]" by simp
  have 7: "(0::real) \<in> set [- (1 / 1152921504606846976), 0]" by simp
  have 8: "\<bar>[- 2, 1::real] ! 1 - 0\<bar> \<le> 1" by simp
  have 9: "list_all (\<lambda>t'. \<not> fl_accepts round_grid gat_tie ([- 2, 1] ! 1) t') [[- 3, - 2]]"
    by (simp add: fl_eval_defs)
  have 10: "fl_diagonal_scores round_grid gat_tie [[0.6, 0.7], [0.5, 0.9]] = Inr (Vector [0.7, 0.5])"
    by (simp add: fl_eval_defs)
  have 11: "fl_abs_diff round_grid [- (1 / 1152921504606846976), 0] ([- 2, 1] ! 1) = [1, 1]"
    by (simp add: fl_abs_diff_def round_grid_def)
  have 12: "np_argmin [1, 1] = Inr 0" by (simp add: np_argmin_def)
  from last_accepted_sequence_selected [OF round_grid_mono round_grid_odd r 1 2 3 4 5 6 7 8 9 10,
      of default_diagonal_opts]
  have "\<exists>j v. np_argmin (fl_abs_diff round_grid [- (1 / 1152921504606846976), 0] ([- 2, 1] ! 1)) = Inr j \<and>
      Vector [0.7, 0.5] = Vector v \<and>
      v ! 1 = [[0.6, 0.7], [0.5, 0.9]] ! 1 ! j \<and>
      Plot [- 2, 1] (Vector v) (color default_diagonal_opts) ''Classif. score''
        \<in> set (fst (fl_plot_gat_diagonal round_grid gat_tie default_diagonal_opts))"
    by blast
  with r 5 7 8 9 10 11 12 show ?thesis by simp
qed

subsection \<open>One testing time per training time\<close>

text \<open>
  Claim C5. When every testing-time array has exactly one element, the scores that
  \<open>plot_gat_diagonal\<close> plots are \<open>gat.scores_\<close> itself, unchanged, and the loop that looks
  for the closest testing time is not run: the result is the \<open>Matrix\<close> of the direct path
  whatever the training times and the step are (they are not even read before the plot),
  and once the training times can be read the plot call is made with these scores.
\<close>

theorem single_element_tests_plot_scores_unchanged:
  assumes "scores g = Some sc" and "get_test_times g = Inr tts"
    and "list_all (\<lambda>t. length t = 1) tts"
  shows "diagonal_scores g sc = Inr (Matrix sc) \<and>
         (\<forall>Ts. get_train_times g = Inr Ts \<longrightarrow>
            Plot Ts (Matrix sc) (color dopts) ''Classif. score''
              \<in> set (fst (plot_gat_diagonal g dopts)))"
proof -
  from assms(3) have "single_element_tests tts" by (simp add: single_element_tests_iff)
  with assms(2) have y: "diagonal_scores g sc = Inr (Matrix sc)"
    by (simp add: diagonal_scores_def)
  with plot_call_made[OF assms(1)] show ?thesis by blast
qed

text \<open>C5 at a results object without the \<open>'step'\<close> key: the loop would raise KeyError at
  its first comparison, and the scores are plotted unchanged all the same.\<close>

theorem single_element_tests_plot_scores_unchanged_witness:
  "list_all (\<lambda>t. length t = 1) [[0], [1::real]] \<and>
   diag_loop gat_vector_no_step [[0.6], [0.9]] [[0], [1]] 0 [0, 0] [0, 1] = Inl KeyError \<and>
   diagonal_scores gat_vector_no_step [[0.6], [0.9]] = Inr (Matrix [[0.6], [0.9]]) \<and>
   Plot [0, 1] (Matrix [[0.6], [0.9]]) ''b'' ''Classif. score''
     \<in> set (fst (plot_gat_diagonal gat_vector_no_step default_diagonal_opts))"
proof -
  have 1: "scores gat_vector_no_step = Some [[0.6], [0.9]]"
    by (simp add: gat_vector_no_step_def)
  have 2: "get_test_times gat_vector_no_step = Inr [[0], [1]]"
    by (simp add: gat_vector_no_step_def get_test_times_def)
  have 3: "list_all (\<lambda>t. length t = 1) [[0], [1::real]]" by simp
  have 4: "get_train_times gat_vector_no_step = Inr [0, 1]"
    by (simp add: gat_vector_no_step_def get_train_times_def)
  have 5: "diag_loop gat_vector_no_step [[0.6], [0.9]] [[0], [1]] 0 [0, 0] [0, 1] = Inl KeyError"
    by (simp add: gat_vector_no_step_def accept_score_def np_argmin_def np_abs_diff_def
        get_step_def)
  show ?thesis
    using single_element_tests_plot_scores_unchanged [OF 1 2 3, of default_diagonal_opts] 3 4 5
    by (simp add: default_diagonal_opts_def)
qed

subsection \<open>Colour limits and extents of the matrix\<close>

text \<open>
  Claim C6. For a square score matrix (as many columns in every row as there are rows, at
  least one), when neither \<open>vmin\<close> nor \<open>vmax\<close> is passed, the colour limits that
  \<open>plot_gat_matrix\<close> computes and hands to \<open>imshow\<close> are the least and the greatest entry
  of the matrix.
\<close>

theorem default_color_bounds_min_max:
  assumes "scores g = Some sc" and "sc \<noteq> []" and "list_all (\<lambda>r. length r = length sc) sc"
    and "vmin mopts = None" and "vmax mopts = None"
  shows "matrix_color_bounds sc mopts = Inr (Min (set (concat sc)), Max (set (concat sc))) \<and>
         (\<forall>ext. matrix_tlim g mopts = Inr ext \<longrightarrow>
            plot_gat_matrix g mopts =
              (new_axes (m_ax mopts)
                 @ matrix_calls sc mopts (Min (set (concat sc))) (Max (set (concat sc))) ext,
               Inr (result_figure (m_ax mopts))))"
proof -
  from assms(2) obtain r rs where sc: "sc = r # rs" by (cases sc) auto
  with assms(3) have "length r = length sc" by simp
  with sc have "r \<noteq> []" by auto
  with sc have ne: "concat sc \<noteq> []" by simp
  have rect: "rectangular sc" using square_rectangular[OF assms(3)] .
  have b: "matrix_color_bounds sc mopts = Inr (Min (set (concat sc)), Max (set (concat sc)))"
    using assms(4,5) rect np_min_flat_Min[OF ne] np_max_flat_Max[OF ne]
    by (simp add: matrix_color_bounds_def np_min_def np_max_def)
  with assms(1) show ?thesis by (simp add: plot_gat_matrix_def)
qed

text \<open>C6 at the 2 x 2 example with the default arguments: the limits are 0.5 and 0.9.\<close>

theorem default_color_bounds_min_max_witness:
  "[[0.6, 0.7], [0.5, 0.9::real]] \<noteq> [] \<and>
   list_all (\<lambda>r. length r = length [[0.6, 0.7], [0.5, 0.9::real]]) [[0.6, 0.7], [0.5, 0.9]] \<and>
   matrix_color_bounds [[0.6, 0.7], [0.5, 0.9]] default_matrix_opts = Inr (0.5, 0.9) \<and>
   plot_gat_matrix (gat_example 1) default_matrix_opts =
     ([Subplots, Imshow [[0.6, 0.7], [0.5, 0.9]] [0, 1, 0, 1] 0.5 0.9 ''RdBu_r'',
       Set_xlabel ''Testing Time (s)'', Set_ylabel ''Training Time (s)'',
       Axvline 0, Axhline 0, Set_xlim [0, 1], Set_ylim [0, 1], Colorbar, Show],
      Inr New_figure)"
proof -
  have 1: "scores (gat_example 1) = Some [[0.6, 0.7], [0.5, 0.9]]"
    by (simp add: gat_example_def make_gat_def)
  have 2: "[[0.6, 0.7], [0.5, 0.9::real]] \<noteq> []" by simp
  have 3: "list_all (\<lambda>r. length r = length [[0.6, 0.7], [0.5, 0.9::real]]) [[0.6, 0.7], [0.5, 0.9]]"
    by simp
  have 4: "vmin default_matrix_opts = None" "vmax default_matrix_opts = None"
    by (simp_all add: default_matrix_opts_def)
  have 5: "matrix_tlim (gat_example 1) default_matrix_opts = Inr [0, 1, 0, 1]"
    by (simp add: gat_example_def make_gat_def default_matrix_opts_def matrix_tlim_def
        default_tlim_def get_train_times_def get_test_times_def py_first_def py_last_def)
  have 6: "Min (set (concat [[0.6, 0.7], [0.5, 0.9::real]])) = 0.5"
          "Max (set (concat [[0.6, 0.7], [0.5, 0.9::real]])) = 0.9"
    by simp_all
  show ?thesis
    using default_color_bounds_min_max [OF 1 2 3 4] 2 3 5 6
    by (simp add: matrix_calls_def new_axes_def result_figure_def default_matrix_opts_def)
qed

text \<open>
  Claim C7. For the scores \<open>[[0.6, 0.7], [0.5, 0.9]]\<close>, the training times \<open>[0, 1]\<close> and the
  testing times \<open>[[0, 1], [0, 1]]\<close>: the default colour limits of \<open>plot_gat_matrix\<close> are 0.5
  and 0.9; \<open>plot_gat_diagonal\<close> does not take the direct path (the arrays have two
  elements) but the loop, and plots the scores \<open>[0.6, 0.9]\<close>. The example names no step;
  any step that is not negative gives this result.
\<close>

theorem example_bounds_and_diagonal:
  assumes "0 \<le> step"
  shows "matrix_color_bounds [[0.6, 0.7], [0.5, 0.9]] default_matrix_opts = Inr (0.5, 0.9) \<and>
         Imshow [[0.6, 0.7], [0.5, 0.9]] [0, 1, 0, 1] 0.5 0.9 ''RdBu_r''
           \<in> set (fst (plot_gat_matrix (gat_example step) default_matrix_opts)) \<and>
         \<not> single_element_tests [[0, 1], [0, 1]] \<and>
         diagonal_scores (gat_example step) [[0.6, 0.7], [0.5, 0.9]] = Inr (Vector [0.6, 0.9]) \<and>
         Plot [0, 1] (Vector [0.6, 0.9]) ''b'' ''Classif. score''
           \<in> set (fst (plot_gat_diagonal (gat_example step) default_diagonal_opts))"
  using assms by (simp add: gat_example_def eval_defs)

text \<open>C7 with the step 1, the distance between the two training times.\<close>

theorem example_bounds_and_diagonal_witness:
  "(0::real) \<le> 1 \<and>
   matrix_color_bounds [[0.6, 0.7], [0.5, 0.9]] default_matrix_opts = Inr (0.5, 0.9) \<and>
   \<not> single_element_tests [[0, 1], [0, 1]] \<and>
   diagonal_scores (gat_example 1) [[0.6, 0.7], [0.5, 0.9]] = Inr (Vector [0.6, 0.9])"
proof -
  have h: "(0::real) \<le> 1" by simp
  show ?thesis using example_bounds_and_diagonal [OF h] by simp
qed

text \<open>
  Claim C8. When \<open>tlim\<close> is not passed, the extents that \<open>plot_gat_matrix\<close> hands to
  \<open>imshow\<close> are the first element of the first testing-time array, the last element of
  the last testing-time array, the first training time and the last training time. The
  only conditions are that these four elements exist: nothing asks the testing-time
  arrays to be equal.
\<close>

theorem default_extents_first_last:
  assumes "scores g = Some sc" and "tlim mopts = None"
    and "matrix_color_bounds sc mopts = Inr (lo, hi)"
    and "get_train_times g = Inr tt" and "get_test_times g = Inr tn"
    and "tt \<noteq> []" and "tn \<noteq> []" and "hd tn \<noteq> []" and "last tn \<noteq> []"
  shows "matrix_tlim g mopts = Inr [hd (hd tn), last (last tn), hd tt, last tt] \<and>
         plot_gat_matrix g mopts =
           (new_axes (m_ax mopts)
              @ matrix_calls sc mopts lo hi [hd (hd tn), last (last tn), hd tt, last tt],
            Inr (result_figure (m_ax mopts))) \<and>
         Imshow sc [hd (hd tn), last (last tn), hd tt, last tt] lo hi (cmap mopts)
           \<in> set (fst (plot_gat_matrix g mopts))"
proof -
  have "default_tlim g = Inr [hd (hd tn), last (last tn), hd tt, last tt]"
    using assms(4-9)
    by (simp add: default_tlim_def py_first_hd py_last_last)
  with assms(2) have t: "matrix_tlim g mopts = Inr [hd (hd tn), last (last tn), hd tt, last tt]"
    by (simp add: matrix_tlim_def)
  with assms(1,3) show ?thesis
    by (simp add: plot_gat_matrix_def matrix_calls_def)
qed

text \<open>C8 at testing-time arrays that differ, \<open>[0, 1]\<close> and \<open>[1, 2, 3]\<close>: the extents are
  0, 3, 0, 1 and the plot is drawn.\<close>

theorem default_extents_first_last_witness:
  "get_test_times gat_ragged = Inr [[0, 1], [1, 2, 3]] \<and>
   matrix_tlim gat_ragged default_matrix_opts = Inr [0, 3, 0, 1] \<and>
   plot_gat_matrix gat_ragged default_matrix_opts =
     ([Subplots, Imshow [[0.6, 0.7], [0.5, 0.9]] [0, 3, 0, 1] 0.5 0.9 ''RdBu_r'',
       Set_xlabel ''Testing Time (s)'', Set_ylabel ''Training Time (s)'',
       Axvline 0, Axhline 0, Set_xlim [0, 3], Set_ylim [0, 1], Colorbar, Show],
      Inr New_figure)"
proof -
  have 1: "scores gat_ragged = Some [[0.6, 0.7], [0.5, 0.9]]"
    by (simp add: gat_ragged_def make_gat_def)
  have 2: "tlim default_matrix_opts = None" by (simp add: default_matrix_opts_def)
  have 3: "matrix_color_bounds [[0.6, 0.7], [0.5, 0.9]] default_matrix_opts = Inr (0.5, 0.9)"
    by (simp add: default_matrix_opts_def matrix_color_bounds_def np_min_def np_max_def
        rectangular_def np_min_flat_def np_max_flat_def)
  have 4: "get_train_times gat_ragged = Inr [0, 1]"
    by (simp add: gat_ragged_def make_gat_def get_train_times_def)
  have 5: "get_test_times gat_ragged = Inr [[0, 1], [1, 2, 3]]"
    by (simp add: gat_ragged_def make_gat_def get_test_times_def)
  have 6: "[0, 1::real] \<noteq> []" "[[0, 1], [1, 2, 3::real]] \<noteq> []"
    "hd [[0, 1], [1, 2, 3::real]] \<noteq> []" "last [[0, 1], [1, 2, 3::real]] \<noteq> []"
    by simp_all
  show ?thesis
    using default_extents_first_last [OF 1 2 3 4 5 6] 5
    by (simp add: matrix_calls_def new_axes_def result_figure_def default_matrix_opts_def)
qed

subsection \<open>Missing time descriptors\<close>

text \<open>
  Claim C9 as stated promises the descriptive run-time error, before any drawing, also
  when the scores are there and a time descriptor is missing. Only \<open>scores_\<close> is checked.
  For scores without \<open>train_times\<close> and \<open>test_times_\<close>, \<open>plot_gat_diagonal\<close> and
  \<open>plot_gat_matrix\<close> create the figure and then fail with Python's AttributeError, and
  \<open>plot_gat_matrix\<close> with \<open>tlim\<close> passed raises nothing and draws the whole plot.
\<close>

theorem missing_times_no_descriptive_error:
  "scores gat_no_times = Some [[0.6, 0.7], [0.5, 0.9]] \<and>
   train_times gat_no_times = None \<and> test_times gat_no_times = None \<and>
   plot_gat_diagonal gat_no_times default_diagonal_opts = ([Subplots], Inl AttributeError) \<and>
   plot_gat_matrix gat_no_times default_matrix_opts = ([Subplots], Inl AttributeError) \<and>
   plot_gat_matrix gat_no_times (default_matrix_opts\<lparr>tlim := Some [0, 1, 0, 1]\<rparr>) =
     ([Subplots, Imshow [[0.6, 0.7], [0.5, 0.9]] [0, 1, 0, 1] 0.5 0.9 ''RdBu_r'',
       Set_xlabel ''Testing Time (s)'', Set_ylabel ''Training Time (s)'',
       Axvline 0, Axhline 0, Set_xlim [0, 1], Set_ylim [0, 1], Colorbar, Show],
      Inr New_figure)"
  by (simp add: gat_no_times_def eval_defs)

text \<open>
  Claim C9, amended. Without the \<open>scores_\<close> attribute both functions raise the descriptive
  RuntimeError before any call on matplotlib. With scores and without the \<open>train_times\<close> or
  the \<open>test_times_\<close> attribute there is no descriptive error: \<open>plot_gat_diagonal\<close> raises
  AttributeError or KeyError after the figure was created when no axes was passed and
  before anything is drawn on the axes; \<open>plot_gat_matrix\<close> does the same when \<open>tlim\<close> is not
  passed and the colour limits could be computed; and when \<open>tlim\<close> is passed it reads no
  time descriptor and draws the whole plot.
\<close>

theorem only_scores_checked_up_front:
  "(scores g = None \<longrightarrow>
      plot_gat_matrix g mopts = ([], Inl RuntimeError) \<and>
      plot_gat_diagonal g dopts = ([], Inl RuntimeError)) \<and>
   (scores g = Some sc \<and> (train_times g = None \<or> test_times g = None) \<longrightarrow>
      (\<exists>e. plot_gat_diagonal g dopts = (new_axes (d_ax dopts), Inl e) \<and>
           (e = AttributeError \<or> e = KeyError)) \<and>
      (tlim mopts = None \<and> matrix_color_bounds sc mopts = Inr (lo, hi) \<longrightarrow>
         (\<exists>e. plot_gat_matrix g mopts = (new_axes (m_ax mopts), Inl e) \<and>
              (e = AttributeError \<or> e = KeyError))) \<and>
      (tlim mopts = Some ext \<and> matrix_color_bounds sc mopts = Inr (lo, hi) \<longrightarrow>
         plot_gat_matrix g mopts =
           (new_axes (m_ax mopts) @ matrix_calls sc mopts lo hi ext,
            Inr (result_figure (m_ax mopts)))))"
proof -
  have a: "scores g = None \<longrightarrow>
      plot_gat_matrix g mopts = ([], Inl RuntimeError) \<and>
      plot_gat_diagonal g dopts = ([], Inl RuntimeError)"
    by (simp add: plot_gat_matrix_def plot_gat_diagonal_def)
  have d: "scores g = Some sc \<Longrightarrow> tlim mopts = Some ext \<Longrightarrow>
      matrix_color_bounds sc mopts = Inr (lo, hi) \<Longrightarrow>
      plot_gat_matrix g mopts =
           (new_axes (m_ax mopts) @ matrix_calls sc mopts lo hi ext,
            Inr (result_figure (m_ax mopts)))"
    by (simp add: plot_gat_matrix_def matrix_tlim_def)
  from a d diagonal_missing_times[of g sc dopts] matrix_missing_times[of g sc mopts "(lo, hi)"]
  show ?thesis by blast
qed

text \<open>The amended C9 at a results object without scores and at one with scores and no
  time descriptor, with the default arguments.\<close>

theorem only_scores_checked_up_front_witness:
  "scores gat_unscored = None \<and>
   plot_gat_matrix gat_unscored default_matrix_opts = ([], Inl RuntimeError) \<and>
   plot_gat_diagonal gat_unscored default_diagonal_opts = ([], Inl RuntimeError) \<and>
   scores gat_no_times = Some [[0.6, 0.7], [0.5, 0.9]] \<and> train_times gat_no_times = None \<and>
   matrix_color_bounds [[0.6, 0.7], [0.5, 0.9]] default_matrix_opts = Inr (0.5, 0.9) \<and>
   (\<exists>e. plot_gat_diagonal gat_no_times default_diagonal_opts = ([Subplots], Inl e) \<and>
        (e = AttributeError \<or> e = KeyError)) \<and>
   (\<exists>e. plot_gat_matrix gat_no_times default_matrix_opts = ([Subplots], Inl e) \<and>
        (e = AttributeError \<or> e = KeyError))"
proof -
  have 1: "scores gat_unscored = None" by (simp add: gat_unscored_def)
  have 2: "scores gat_no_times = Some [[0.6, 0.7], [0.5, 0.9]]" "train_times gat_no_times = None"
    by (simp_all add: gat_no_times_def)
  have 3: "tlim default_matrix_opts = None" "m_ax default_matrix_opts = None"
    "d_ax default_diagonal_opts = None"
    by (simp_all add: default_matrix_opts_def default_diagonal_opts_def)
  have 4: "matrix_color_bounds [[0.6, 0.7], [0.5, 0.9]] default_matrix_opts = Inr (0.5, 0.9)"
    by (simp add: default_matrix_opts_def matrix_color_bounds_def np_min_def np_max_def
        rectangular_def np_min_flat_def np_max_flat_def)
  show ?thesis
    using only_scores_checked_up_front
            [where g = gat_unscored and mopts = default_matrix_opts
               and dopts = default_diagonal_opts]
          only_scores_checked_up_front
            [where g = gat_no_times and sc = "[[0.6, 0.7], [0.5, 0.9]]"
               and mopts = default_matrix_opts and dopts = default_diagonal_opts
               and lo = "0.5" and hi = "0.9"]
          1 2 3 4
    by (simp add: new_axes_def)
qed

subsection \<open>The column index comes from the scanned array\<close>



end
